theory Spec2Isabelle
  imports Complex_Main
begin

section \<open>NumPy float64 values\<close>

text \<open>
  Every number of the program is a NumPy \<^verbatim>\<open>float64\<close>. The model keeps the values that
  decide the program's branches and its "undefined" results: a finite value, the two
  infinities and NaN. Arithmetic on finite values is exact real arithmetic (rounding and
  overflow are left out), and the special values follow IEEE 754 as NumPy applies it:
  a division by zero does not raise, it gives an infinity or NaN; NaN spreads through
  every operation; every ordered comparison with NaN is false and \<^verbatim>\<open>!=\<close> with NaN is
  true. Zero has no sign: a finite value divided by an infinity is \<open>Fin 0\<close>, and a
  division by \<open>Fin 0\<close> takes the sign of the numerator.

  What float64 satisfies up to rounding only (the weights summing to 1, a row of the
  area-proportion matrix summing to its weight, the areas summing to the total area, the
  user's accuracy agreeing with the sample-count ratio) is true of this model exactly and
  of the program approximately; no theorem of this theory states such a property.
\<close>

datatype npfloat = Fin real | PInf | NInf | NaN





fun fneg :: "npfloat \<Rightarrow> npfloat" where
  "fneg (Fin a) = Fin (- a)"
| "fneg PInf = NInf"
| "fneg NInf = PInf"
| "fneg NaN = NaN"

fun fadd :: "npfloat \<Rightarrow> npfloat \<Rightarrow> npfloat" where
  "fadd (Fin a) (Fin b) = Fin (a + b)"
| "fadd NaN y = NaN"
| "fadd x NaN = NaN"
| "fadd PInf NInf = NaN"
| "fadd NInf PInf = NaN"
| "fadd PInf y = PInf"
| "fadd x PInf = PInf"
| "fadd NInf y = NInf"
| "fadd x NInf = NInf"

definition fsub :: "npfloat \<Rightarrow> npfloat \<Rightarrow> npfloat" where
  "fsub x y = fadd x (fneg y)"

text \<open>The infinity with the sign of a non-zero real, NaN for zero (\<open>0 * inf\<close>).\<close>

definition signed_inf :: "real \<Rightarrow> npfloat" where
  "signed_inf a = (if a = 0 then NaN else if 0 < a then PInf else NInf)"

fun fmul :: "npfloat \<Rightarrow> npfloat \<Rightarrow> npfloat" where
  "fmul (Fin a) (Fin b) = Fin (a * b)"
| "fmul NaN y = NaN"
| "fmul x NaN = NaN"
| "fmul (Fin a) PInf = signed_inf a"
| "fmul (Fin a) NInf = signed_inf (- a)"
| "fmul PInf (Fin b) = signed_inf b"
| "fmul NInf (Fin b) = signed_inf (- b)"
| "fmul PInf PInf = PInf"
| "fmul PInf NInf = NInf"
| "fmul NInf PInf = NInf"
| "fmul NInf NInf = PInf"

fun fdiv :: "npfloat \<Rightarrow> npfloat \<Rightarrow> npfloat" where
  "fdiv (Fin a) (Fin b) = (if b = 0 then signed_inf a else Fin (a / b))"
| "fdiv NaN y = NaN"
| "fdiv x NaN = NaN"
| "fdiv (Fin a) y = Fin 0"
| "fdiv PInf (Fin b) = (if 0 \<le> b then PInf else NInf)"
| "fdiv NInf (Fin b) = (if 0 \<le> b then NInf else PInf)"
| "fdiv x y = NaN"

text \<open>\<^verbatim>\<open>x ** 2\<close>\<close>

definition fsq :: "npfloat \<Rightarrow> npfloat" where
  "fsq x = fmul x x"

text \<open>\<^verbatim>\<open>np.sqrt\<close>: NaN for a negative argument, no exception.\<close>

fun fsqrt :: "npfloat \<Rightarrow> npfloat" where
  "fsqrt (Fin a) = (if a < 0 then NaN else Fin (sqrt a))"
| "fsqrt PInf = PInf"
| "fsqrt NInf = NaN"
| "fsqrt NaN = NaN"

text \<open>\<^verbatim>\<open>x > y\<close>\<close>

fun fgt :: "npfloat \<Rightarrow> npfloat \<Rightarrow> bool" where
  "fgt (Fin a) (Fin b) = (b < a)"
| "fgt NaN y = False"
| "fgt x NaN = False"
| "fgt PInf PInf = False"
| "fgt PInf y = True"
| "fgt NInf y = False"
| "fgt (Fin a) NInf = True"
| "fgt (Fin a) PInf = False"

text \<open>\<^verbatim>\<open>x != y\<close>\<close>

fun fne :: "npfloat \<Rightarrow> npfloat \<Rightarrow> bool" where
  "fne NaN y = True"
| "fne x NaN = True"
| "fne x y = (x \<noteq> y)"

text \<open>
  \<^verbatim>\<open>np.sum\<close> of a vector and Python's \<^verbatim>\<open>sum\<close> of a generator: both start from
  zero and add the elements. In this model the result does not depend on the order of
  the additions.
\<close>

definition np_sum :: "npfloat list \<Rightarrow> npfloat" where
  "np_sum xs = foldl fadd (Fin 0) xs"

section \<open>The estimation pipeline\<close>

text \<open>
  A vector is a list, a matrix the list of its rows. The program builds every array
  with the same class count \<open>q\<close>; \<open>square q m\<close> says that \<open>m\<close> is such a matrix. NumPy
  raises \<^verbatim>\<open>IndexError\<close> for an index outside an array; the functions below read
  \<open>m ! i ! j\<close> and \<open>weights ! i\<close> for indices below \<open>q\<close> only, and the theorems assume the
  shapes, so that every such read is inside its array.
\<close>

type_synonym vec = "npfloat list"
type_synonym matrix = "npfloat list list"

definition square :: "nat \<Rightarrow> matrix \<Rightarrow> bool" where
  "square q m = (length m = q \<and> list_all (\<lambda>r. length r = q) m)"

text \<open>\<^verbatim>\<open>m[:, j]\<close>\<close>

definition column :: "matrix \<Rightarrow> nat \<Rightarrow> vec" where
  "column m j = map (\<lambda>r. r ! j) m"

subsection \<open>\<^verbatim>\<open>calculate_weights\<close>\<close>


subsection \<open>\<^verbatim>\<open>convert_to_area_proportion\<close>\<close>



subsection \<open>\<^verbatim>\<open>calculate_accuracy_metrics\<close>\<close>

text \<open>
  The only exception the function's own code could raise on arrays of matching shape:
  reading \<^verbatim>\<open>U_i\<close> or \<^verbatim>\<open>n_i_dot\<close> before the user's-accuracy loop has bound them.
\<close>

datatype py_error = NameError

text \<open>The five lists kept for the user's and for the producer's accuracy.\<close>

record acc_lists =
  acc :: vec
  acc_se :: vec
  acc_ci_lower :: vec
  acc_ci_upper :: vec
  acc_ci_value :: vec

definition no_lists :: acc_lists where
  "no_lists = \<lparr>acc = [], acc_se = [], acc_ci_lower = [], acc_ci_upper = [], acc_ci_value = []\<rparr>"

text \<open>One \<^verbatim>\<open>append\<close> to each of the five lists.\<close>

definition push :: "acc_lists \<Rightarrow> npfloat \<Rightarrow> npfloat \<Rightarrow> npfloat \<Rightarrow> npfloat \<Rightarrow> npfloat \<Rightarrow> acc_lists" where
  "push l a s lo hi v =
     \<lparr>acc = acc l @ [a], acc_se = acc_se l @ [s], acc_ci_lower = acc_ci_lower l @ [lo],
      acc_ci_upper = acc_ci_upper l @ [hi], acc_ci_value = acc_ci_value l @ [v]\<rparr>"

text \<open>
  \<^verbatim>\<open>st.norm.ppf\<close> is SciPy's; the model takes it as the parameter \<open>norm_ppf\<close>.
\<close>

definition z_score_of :: "(npfloat \<Rightarrow> npfloat) \<Rightarrow> npfloat \<Rightarrow> npfloat" where
  "z_score_of norm_ppf confidence_level =
     norm_ppf (fsub (Fin 1) (fdiv (fsub (Fin 1) confidence_level) (Fin 2)))"

text \<open>\<^verbatim>\<open>U_i\<close> of one pass of the user's-accuracy loop.\<close>

definition user_U_i :: "matrix \<Rightarrow> nat \<Rightarrow> npfloat" where
  "user_U_i area_proportion_matrix i =
     (let p_ii = area_proportion_matrix ! i ! i;
          p_i_dot = np_sum (area_proportion_matrix ! i)
      in if fne p_i_dot (Fin 0) then fdiv p_ii p_i_dot else NaN)"

text \<open>
  One pass of the user's-accuracy loop: the lists after it, and the values it leaves in
  the variables \<^verbatim>\<open>U_i\<close> and \<^verbatim>\<open>n_i_dot\<close>.
\<close>

definition user_step :: "matrix \<Rightarrow> matrix \<Rightarrow> npfloat \<Rightarrow> nat \<Rightarrow> acc_lists \<Rightarrow> acc_lists \<times> npfloat \<times> npfloat" where
  "user_step area_proportion_matrix error_matrix z_score i l =
     (let U_i = user_U_i area_proportion_matrix i;
          n_i_dot = np_sum (error_matrix ! i)
      in (if fgt n_i_dot (Fin 1)
          then (let variance_U_i = fdiv (fmul U_i (fsub (Fin 1) U_i)) (fsub n_i_dot (Fin 1));
                    se_U_i = fsqrt variance_U_i
                in push l U_i se_U_i (fsub U_i (fmul z_score se_U_i))
                     (fadd U_i (fmul z_score se_U_i)) (fmul z_score se_U_i))
          else push l U_i NaN NaN NaN NaN,
          U_i, n_i_dot))"

text \<open>
  The loop over \<^verbatim>\<open>range(q)\<close>. The second component is what the variables \<^verbatim>\<open>U_i\<close> and
  \<^verbatim>\<open>n_i_dot\<close> hold: \<open>None\<close> while they are unbound.
\<close>

fun user_loop :: "matrix \<Rightarrow> matrix \<Rightarrow> npfloat \<Rightarrow> nat list \<Rightarrow>
    acc_lists \<times> (npfloat \<times> npfloat) option \<Rightarrow> acc_lists \<times> (npfloat \<times> npfloat) option" where
  "user_loop ap em z [] st = st"
| "user_loop ap em z (i # is) (l, leftover) =
     (case user_step ap em z i l of
        (l', U_i, n_i_dot) \<Rightarrow> user_loop ap em z is (l', Some (U_i, n_i_dot)))"

text \<open>
  The expression assigned to \<^verbatim>\<open>variance_P_j\<close>. Inside the generator only \<^verbatim>\<open>i\<close> is
  rebound; \<^verbatim>\<open>U_i\<close> and \<^verbatim>\<open>n_i_dot\<close> are the enclosing function's variables.
\<close>

definition variance_P_j :: "matrix \<Rightarrow> nat \<Rightarrow> nat \<Rightarrow> npfloat \<Rightarrow> npfloat \<Rightarrow> npfloat \<Rightarrow> npfloat \<Rightarrow> npfloat" where
  "variance_P_j error_matrix q j n_dot_j P_j U_i n_i_dot =
     fmul (fdiv (Fin 1) (fsq n_dot_j))
       (fadd
          (fdiv (fmul (fmul (fmul (fsq n_dot_j) (fsq (fsub (Fin 1) P_j))) U_i) (fsub (Fin 1) U_i))
             (fsub n_i_dot (Fin 1)))
          (fmul (fsq P_j)
             (np_sum (map (\<lambda>i. fdiv (fmul (fdiv (error_matrix ! i ! j) n_i_dot)
                                       (fsub (Fin 1) (fdiv (error_matrix ! i ! j) n_i_dot)))
                                 (fsub n_i_dot (Fin 1)))
                        (filter (\<lambda>i. i \<noteq> j) [0..<q])))))"

text \<open>\<^verbatim>\<open>P_j\<close> of one pass of the producer's-accuracy loop.\<close>

definition producer_P_j :: "matrix \<Rightarrow> nat \<Rightarrow> npfloat" where
  "producer_P_j area_proportion_matrix j =
     (let p_jj = area_proportion_matrix ! j ! j;
          p_dot_j = np_sum (column area_proportion_matrix j)
      in if fne p_dot_j (Fin 0) then fdiv p_jj p_dot_j else NaN)"

definition producer_step :: "matrix \<Rightarrow> matrix \<Rightarrow> npfloat \<Rightarrow> nat \<Rightarrow> (npfloat \<times> npfloat) option \<Rightarrow>
    nat \<Rightarrow> acc_lists \<Rightarrow> py_error + acc_lists" where
  "producer_step area_proportion_matrix error_matrix z_score q leftover j l =
     (let P_j = producer_P_j area_proportion_matrix j;
          n_dot_j = np_sum (column error_matrix j)
      in if fgt n_dot_j (Fin 1)
         then (case leftover of
                 None \<Rightarrow> Inl NameError
               | Some (U_i, n_i_dot) \<Rightarrow>
                   (let se_P_j = fsqrt (variance_P_j error_matrix q j n_dot_j P_j U_i n_i_dot)
                    in Inr (push l P_j se_P_j (fsub P_j (fmul z_score se_P_j))
                              (fadd P_j (fmul z_score se_P_j)) (fmul z_score se_P_j))))
         else Inr (push l P_j NaN NaN NaN NaN))"

fun producer_loop :: "matrix \<Rightarrow> matrix \<Rightarrow> npfloat \<Rightarrow> nat \<Rightarrow> (npfloat \<times> npfloat) option \<Rightarrow>
    nat list \<Rightarrow> acc_lists \<Rightarrow> py_error + acc_lists" where
  "producer_loop ap em z q leftover [] l = Inr l"
| "producer_loop ap em z q leftover (j # js) l =
     (case producer_step ap em z q leftover j l of
        Inl e \<Rightarrow> Inl e
      | Inr l' \<Rightarrow> producer_loop ap em z q leftover js l')"

text \<open>\<^verbatim>\<open>np.trace\<close> of a matrix with \<open>q\<close> rows and columns.\<close>

definition np_trace :: "nat \<Rightarrow> matrix \<Rightarrow> npfloat" where
  "np_trace q m = np_sum (map (\<lambda>i. m ! i ! i) [0..<q])"

text \<open>The generator sum assigned to \<^verbatim>\<open>overall_accuracy_variance\<close>.\<close>

definition overall_accuracy_variance :: "matrix \<Rightarrow> vec \<Rightarrow> vec \<Rightarrow> nat \<Rightarrow> npfloat" where
  "overall_accuracy_variance error_matrix weights user_accuracy q =
     np_sum (map (\<lambda>i. fdiv (fmul (fmul (fsq (weights ! i)) (user_accuracy ! i))
                               (fsub (Fin 1) (user_accuracy ! i)))
                         (fsub (np_sum (error_matrix ! i)) (Fin 1)))
                (filter (\<lambda>i. fgt (np_sum (error_matrix ! i)) (Fin 1)) [0..<q]))"

text \<open>The returned dictionary.\<close>

record accuracy_metrics =
  user_accuracy :: vec
  user_accuracy_se :: vec
  user_accuracy_ci_lower :: vec
  user_accuracy_ci_upper :: vec
  user_accuracy_ci_value :: vec
  producer_accuracy :: vec
  producer_accuracy_se :: vec
  producer_accuracy_ci_lower :: vec
  producer_accuracy_ci_upper :: vec
  producer_accuracy_ci_value :: vec
  overall_accuracy :: npfloat
  overall_accuracy_se :: npfloat
  overall_accuracy_ci_lower :: npfloat
  overall_accuracy_ci_upper :: npfloat
  overall_accuracy_ci_value :: npfloat

definition calculate_accuracy_metrics :: "matrix \<Rightarrow> matrix \<Rightarrow> vec \<Rightarrow> (npfloat \<Rightarrow> npfloat) \<Rightarrow> npfloat \<Rightarrow>
    py_error + accuracy_metrics" where
  "calculate_accuracy_metrics area_proportion_matrix error_matrix weights norm_ppf confidence_level =
     (let q = length area_proportion_matrix;
          z_score = z_score_of norm_ppf confidence_level
      in case user_loop area_proportion_matrix error_matrix z_score [0..<q] (no_lists, None) of
           (u, leftover) \<Rightarrow>
             (case producer_loop area_proportion_matrix error_matrix z_score q leftover [0..<q] no_lists of
                Inl e \<Rightarrow> Inl e
              | Inr p \<Rightarrow>
                  (let overall = np_trace q area_proportion_matrix;
                       overall_variance = overall_accuracy_variance error_matrix weights (acc u) q;
                       overall_se = fsqrt overall_variance
                   in Inr \<lparr>user_accuracy = acc u,
                           user_accuracy_se = acc_se u,
                           user_accuracy_ci_lower = acc_ci_lower u,
                           user_accuracy_ci_upper = acc_ci_upper u,
                           user_accuracy_ci_value = acc_ci_value u,
                           producer_accuracy = acc p,
                           producer_accuracy_se = acc_se p,
                           producer_accuracy_ci_lower = acc_ci_lower p,
                           producer_accuracy_ci_upper = acc_ci_upper p,
                           producer_accuracy_ci_value = acc_ci_value p,
                           overall_accuracy = overall,
                           overall_accuracy_se = overall_se,
                           overall_accuracy_ci_lower = fsub overall (fmul z_score overall_se),
                           overall_accuracy_ci_upper = fadd overall (fmul z_score overall_se),
                           overall_accuracy_ci_value = fmul z_score overall_se\<rparr>)))"

subsection \<open>\<^verbatim>\<open>calculate_error_adjusted_area\<close>\<close>

text \<open>\<^verbatim>\<open>m.sum(axis=0)\<close>: the column sums, one for each of the \<^verbatim>\<open>m.shape[1]\<close> columns.\<close>

definition ncols :: "matrix \<Rightarrow> nat" where
  "ncols m = (case m of [] \<Rightarrow> 0 | r # rs \<Rightarrow> length r)"

definition sum_axis0 :: "matrix \<Rightarrow> vec" where
  "sum_axis0 m = map (\<lambda>j. np_sum (column m j)) [0..<ncols m]"

definition calculate_error_adjusted_area :: "matrix \<Rightarrow> npfloat \<Rightarrow> vec" where
  "calculate_error_adjusted_area area_proportion_matrix total_area =
     map (\<lambda>c. fmul total_area c) (sum_axis0 area_proportion_matrix)"

subsection \<open>\<^verbatim>\<open>calculate_standard_error_and_ci\<close>\<close>

text \<open>The inner loop over \<^verbatim>\<open>i\<close>, with \<^verbatim>\<open>se_j_squared\<close> as the accumulator.\<close>

fun se_j_loop :: "matrix \<Rightarrow> vec \<Rightarrow> nat \<Rightarrow> nat list \<Rightarrow> npfloat \<Rightarrow> npfloat" where
  "se_j_loop error_matrix weights j [] se_j_squared = se_j_squared"
| "se_j_loop error_matrix weights j (i # is) se_j_squared =
     (let n_ij = error_matrix ! i ! j;
          n_i_dot = np_sum (error_matrix ! i)
      in se_j_loop error_matrix weights j is
           (if fgt n_i_dot (Fin 1)
            then fadd se_j_squared
                   (fdiv (fmul (fmul (fsq (weights ! i)) (fdiv n_ij n_i_dot))
                            (fsub (Fin 1) (fdiv n_ij n_i_dot)))
                      (fsub n_i_dot (Fin 1)))
            else se_j_squared))"

record area_uncertainty =
  standard_errors :: vec
  confidence_intervals :: "(npfloat \<times> npfloat) list"

text \<open>
  The outer loop appends one value for each \<open>j\<close> and the two comprehensions build one
  element for each index, so each is a map.
\<close>

definition calculate_standard_error_and_ci :: "matrix \<Rightarrow> vec \<Rightarrow> vec \<Rightarrow> npfloat \<Rightarrow>
    (npfloat \<Rightarrow> npfloat) \<Rightarrow> npfloat \<Rightarrow> area_uncertainty" where
  "calculate_standard_error_and_ci error_matrix weights area_adjusted_estimates total_area
       norm_ppf confidence_level =
     (let q = length error_matrix;
          se_list = map (\<lambda>j. fsqrt (se_j_loop error_matrix weights j [0..<q] (Fin 0))) [0..<q];
          area_standard_errors = map (\<lambda>se_j. fmul total_area se_j) se_list;
          z_score = z_score_of norm_ppf confidence_level
      in \<lparr>standard_errors = area_standard_errors,
          confidence_intervals =
            map (\<lambda>j. (fsub (area_adjusted_estimates ! j) (fmul z_score (area_standard_errors ! j)),
                       fadd (area_adjusted_estimates ! j) (fmul z_score (area_standard_errors ! j))))
                [0..<q]\<rparr>)"

section \<open>Closed forms of the loops' results\<close>

text \<open>
  The standard error that the user's-accuracy loop appends for class \<open>i\<close>, and the one the
  producer's-accuracy loop appends for class \<open>j\<close> when the variables \<^verbatim>\<open>U_i\<close> and
  \<^verbatim>\<open>n_i_dot\<close> hold \<open>U\<close> and \<open>n\<close>. The lemmas below show that the loops compute them.
\<close>

definition user_se :: "matrix \<Rightarrow> matrix \<Rightarrow> nat \<Rightarrow> npfloat" where
  "user_se ap em i =
     (if fgt (np_sum (em ! i)) (Fin 1)
      then fsqrt (fdiv (fmul (user_U_i ap i) (fsub (Fin 1) (user_U_i ap i)))
                    (fsub (np_sum (em ! i)) (Fin 1)))
      else NaN)"

definition producer_se :: "matrix \<Rightarrow> matrix \<Rightarrow> nat \<Rightarrow> npfloat \<Rightarrow> npfloat \<Rightarrow> nat \<Rightarrow> npfloat" where
  "producer_se ap em q U n j =
     (if fgt (np_sum (column em j)) (Fin 1)
      then fsqrt (variance_P_j em q j (np_sum (column em j)) (producer_P_j ap j) U n)
      else NaN)"

text \<open>The five lists of an accuracy, from its values and standard errors.\<close>

definition lists_of :: "npfloat \<Rightarrow> (nat \<Rightarrow> npfloat) \<Rightarrow> (nat \<Rightarrow> npfloat) \<Rightarrow> nat list \<Rightarrow> acc_lists" where
  "lists_of z a s is =
     \<lparr>acc = map a is, acc_se = map s is,
      acc_ci_lower = map (\<lambda>i. fsub (a i) (fmul z (s i))) is,
      acc_ci_upper = map (\<lambda>i. fadd (a i) (fmul z (s i))) is,
      acc_ci_value = map (\<lambda>i. fmul z (s i)) is\<rparr>"

text \<open>Appending the lists of \<open>l'\<close> to those of \<open>l\<close>.\<close>

definition lists_append :: "acc_lists \<Rightarrow> acc_lists \<Rightarrow> acc_lists" where
  "lists_append l l' =
     \<lparr>acc = acc l @ acc l', acc_se = acc_se l @ acc_se l',
      acc_ci_lower = acc_ci_lower l @ acc_ci_lower l',
      acc_ci_upper = acc_ci_upper l @ acc_ci_upper l',
      acc_ci_value = acc_ci_value l @ acc_ci_value l'\<rparr>"

section \<open>The spec's formula for the producer's-accuracy variance\<close>

text \<open>
  Following the spec's words (section 4.3), not the source: for column \<open>j\<close> with
  \<open>n_dot_j = \<Sum>i. error_matrix[i][j]\<close>,
  \<open>Var(P_j) = (1 / n_dot_j\<^sup>2) * [n_dot_j\<^sup>2 * (1 - P_j)\<^sup>2 * U * (1 - U) / (n - 1) +
     P_j\<^sup>2 * \<Sum>i\<noteq>j. (error_matrix[i][j] / n_i) * (1 - error_matrix[i][j] / n_i) / (n_i - 1)]\<close>,
  where \<open>U\<close> and \<open>n\<close> of the first term are the user's accuracy and the row total of the
  last class \<open>q - 1\<close>. The row total \<open>n_i\<close> used for the contributing row \<open>i\<close> of the sum
  is the parameter \<open>row_total\<close>: claim C1 reads it as the total of row \<open>i\<close>,
  \<open>\<lambda>i. np_sum (error_matrix ! i)\<close>.
\<close>

definition producer_variance_spec :: "(nat \<Rightarrow> npfloat) \<Rightarrow> matrix \<Rightarrow> matrix \<Rightarrow> nat \<Rightarrow> nat \<Rightarrow> npfloat" where
  "producer_variance_spec row_total area_proportion_matrix error_matrix q j =
     (let n_dot_j = np_sum (column error_matrix j);
          P_j = producer_P_j area_proportion_matrix j;
          U = user_U_i area_proportion_matrix (q - 1);
          n = np_sum (error_matrix ! (q - 1))
      in fmul (fdiv (Fin 1) (fsq n_dot_j))
           (fadd
              (fdiv (fmul (fmul (fmul (fsq n_dot_j) (fsq (fsub (Fin 1) P_j))) U) (fsub (Fin 1) U))
                 (fsub n (Fin 1)))
              (fmul (fsq P_j)
                 (np_sum (map (\<lambda>i. fdiv (fmul (fdiv (error_matrix ! i ! j) (row_total i))
                                           (fsub (Fin 1) (fdiv (error_matrix ! i ! j) (row_total i))))
                                     (fsub (row_total i) (Fin 1)))
                            (filter (\<lambda>i. i \<noteq> j) [0..<q]))))))"

section \<open>Properties of the float operations\<close>

lemma fadd_commute: "fadd x y = fadd y x"
  by (cases x; cases y) simp_all

lemma fadd_assoc: "fadd (fadd x y) z = fadd x (fadd y z)"
  by (cases x; cases y; cases z) simp_all

lemma fadd_zero_left: "fadd (Fin 0) x = x"
  by (cases x) simp_all

lemma fadd_NaN_right: "fadd x NaN = NaN"
  by (cases x) simp_all

lemma foldl_fadd_shift: "foldl fadd (fadd a x) xs = fadd a (foldl fadd x xs)"
  by (induction xs arbitrary: x) (simp_all add: fadd_assoc)

lemma np_sum_Nil: "np_sum [] = Fin 0"
  by (simp add: np_sum_def)

lemma np_sum_Cons: "np_sum (x # xs) = fadd x (np_sum xs)"
proof -
  have "foldl fadd (fadd x (Fin 0)) xs = fadd x (foldl fadd (Fin 0) xs)"
    by (rule foldl_fadd_shift)
  then show ?thesis
    by (simp add: np_sum_def fadd_zero_left fadd_commute [of x "Fin 0"])
qed





section \<open>The loops of \<^verbatim>\<open>calculate_accuracy_metrics\<close>\<close>

lemma fmul_NaN_right: "fmul x NaN = NaN"
  by (cases x) simp_all

lemma fsub_NaN_right: "fsub x NaN = NaN"
  by (simp add: fsub_def fadd_NaN_right)

lemma lists_append_empty: "lists_append no_lists l = l"
  by (simp add: lists_append_def no_lists_def)

lemma lists_of_Nil: "lists_append l (lists_of z a s []) = l"
  by (simp add: lists_append_def lists_of_def)

lemma push_lists_of:
  "lists_append (push l (a i) (s i) (fsub (a i) (fmul z (s i))) (fadd (a i) (fmul z (s i))) (fmul z (s i)))
     (lists_of z a s is) = lists_append l (lists_of z a s (i # is))"
  by (simp add: lists_append_def lists_of_def push_def)

lemma user_step_closed:
  "user_step ap em z i l =
     (push l (user_U_i ap i) (user_se ap em i)
        (fsub (user_U_i ap i) (fmul z (user_se ap em i)))
        (fadd (user_U_i ap i) (fmul z (user_se ap em i)))
        (fmul z (user_se ap em i)),
      user_U_i ap i, np_sum (em ! i))"
  by (simp add: user_step_def user_se_def Let_def fmul_NaN_right fsub_NaN_right fadd_NaN_right)

lemma user_loop_closed:
  "user_loop ap em z is (l, leftover) =
     (lists_append l (lists_of z (user_U_i ap) (user_se ap em) is),
      if is = [] then leftover else Some (user_U_i ap (last is), np_sum (em ! last is)))"
proof (induction "is" arbitrary: l leftover)
  case Nil
  show ?case by (simp add: lists_of_Nil)
next
  case (Cons i "is")
  show ?case
    by (simp add: user_step_closed Cons.IH push_lists_of)
qed

lemma producer_step_closed:
  "producer_step ap em z q (Some (U, n)) j l =
     Inr (push l (producer_P_j ap j) (producer_se ap em q U n j)
        (fsub (producer_P_j ap j) (fmul z (producer_se ap em q U n j)))
        (fadd (producer_P_j ap j) (fmul z (producer_se ap em q U n j)))
        (fmul z (producer_se ap em q U n j)))"
  by (simp add: producer_step_def producer_se_def Let_def fmul_NaN_right fsub_NaN_right fadd_NaN_right)

lemma producer_loop_closed:
  "producer_loop ap em z q (Some (U, n)) js l =
     Inr (lists_append l (lists_of z (producer_P_j ap) (producer_se ap em q U n) js))"
proof (induction js arbitrary: l)
  case Nil
  show ?case by (simp add: lists_of_Nil)
next
  case (Cons j js)
  show ?case
    by (simp add: producer_step_closed Cons.IH push_lists_of)
qed

text \<open>The whole function, for at least one class.\<close>

lemma calculate_accuracy_metrics_closed:
  assumes "length ap = q" and "0 < q"
  shows "calculate_accuracy_metrics ap em w norm_ppf cl =
    (let z = z_score_of norm_ppf cl;
         u = lists_of z (user_U_i ap) (user_se ap em) [0..<q];
         p = lists_of z (producer_P_j ap)
               (producer_se ap em q (user_U_i ap (q - 1)) (np_sum (em ! (q - 1)))) [0..<q];
         overall = np_trace q ap;
         overall_se = fsqrt (overall_accuracy_variance em w (map (user_U_i ap) [0..<q]) q)
     in Inr \<lparr>user_accuracy = acc u,
             user_accuracy_se = acc_se u,
             user_accuracy_ci_lower = acc_ci_lower u,
             user_accuracy_ci_upper = acc_ci_upper u,
             user_accuracy_ci_value = acc_ci_value u,
             producer_accuracy = acc p,
             producer_accuracy_se = acc_se p,
             producer_accuracy_ci_lower = acc_ci_lower p,
             producer_accuracy_ci_upper = acc_ci_upper p,
             producer_accuracy_ci_value = acc_ci_value p,
             overall_accuracy = overall,
             overall_accuracy_se = overall_se,
             overall_accuracy_ci_lower = fsub overall (fmul z overall_se),
             overall_accuracy_ci_upper = fadd overall (fmul z overall_se),
             overall_accuracy_ci_value = fmul z overall_se\<rparr>)"
proof -
  have last: "last [0..<q] = q - 1" and ne: "[0..<q] \<noteq> []"
    using assms(2) by (simp_all add: last_upt)
  show ?thesis
    unfolding calculate_accuracy_metrics_def Let_def assms(1)
    using assms(2)
    by (simp add: user_loop_closed producer_loop_closed lists_append_empty last lists_of_def)
qed

lemma calculate_accuracy_metrics_no_class:
  "calculate_accuracy_metrics [] em w norm_ppf cl =
     Inr \<lparr>user_accuracy = [], user_accuracy_se = [], user_accuracy_ci_lower = [],
          user_accuracy_ci_upper = [], user_accuracy_ci_value = [],
          producer_accuracy = [], producer_accuracy_se = [], producer_accuracy_ci_lower = [],
          producer_accuracy_ci_upper = [], producer_accuracy_ci_value = [],
          overall_accuracy = Fin 0, overall_accuracy_se = Fin 0,
          overall_accuracy_ci_lower = fsub (Fin 0) (fmul (z_score_of norm_ppf cl) (Fin 0)),
          overall_accuracy_ci_upper = fadd (Fin 0) (fmul (z_score_of norm_ppf cl) (Fin 0)),
          overall_accuracy_ci_value = fmul (z_score_of norm_ppf cl) (Fin 0)\<rparr>"
  by (simp add: calculate_accuracy_metrics_def no_lists_def np_trace_def
      overall_accuracy_variance_def np_sum_Nil Let_def)

section \<open>The inner loop of \<^verbatim>\<open>calculate_standard_error_and_ci\<close>\<close>

lemma se_j_loop_closed:
  "se_j_loop em w j is a =
     fadd a (np_sum (map (\<lambda>i. if fgt (np_sum (em ! i)) (Fin 1)
                          then fdiv (fmul (fmul (fsq (w ! i)) (fdiv (em ! i ! j) (np_sum (em ! i))))
                                       (fsub (Fin 1) (fdiv (em ! i ! j) (np_sum (em ! i)))))
                                 (fsub (np_sum (em ! i)) (Fin 1))
                          else Fin 0) is))"
proof (induction "is" arbitrary: a)
  case Nil
  show ?case by (simp add: np_sum_Nil fadd_commute [of a "Fin 0"] fadd_zero_left)
next
  case (Cons i "is")
  show ?case
    by (simp add: Cons.IH np_sum_Cons Let_def fadd_assoc fadd_zero_left)
qed

text \<open>Leaving an element out of a sum is the same as adding zero for it.\<close>

lemma np_sum_filter_zero:
  "np_sum (map (\<lambda>i. if P i then f i else Fin 0) is) = np_sum (map f (filter P is))"
  by (induction "is") (simp_all add: np_sum_Nil np_sum_Cons fadd_zero_left)

lemma sqrt_sixteenth: "sqrt (1 / 16) = 1 / 4"
  by (rule real_sqrt_unique) (simp_all add: power2_eq_square)

section \<open>Rows of the area-proportion matrix\<close>









section \<open>The fields of the returned dictionary\<close>

lemma calculate_accuracy_metrics_fields:
  assumes "length ap = q"
  shows "\<exists>r. calculate_accuracy_metrics ap em w norm_ppf cl = Inr r \<and>
    user_accuracy r = map (user_U_i ap) [0..<q] \<and>
    user_accuracy_se r = map (user_se ap em) [0..<q] \<and>
    user_accuracy_ci_lower r =
      map (\<lambda>i. fsub (user_U_i ap i) (fmul (z_score_of norm_ppf cl) (user_se ap em i))) [0..<q] \<and>
    user_accuracy_ci_upper r =
      map (\<lambda>i. fadd (user_U_i ap i) (fmul (z_score_of norm_ppf cl) (user_se ap em i))) [0..<q] \<and>
    user_accuracy_ci_value r = map (\<lambda>i. fmul (z_score_of norm_ppf cl) (user_se ap em i)) [0..<q] \<and>
    producer_accuracy r = map (producer_P_j ap) [0..<q] \<and>
    producer_accuracy_se r =
      map (producer_se ap em q (user_U_i ap (q - 1)) (np_sum (em ! (q - 1)))) [0..<q] \<and>
    overall_accuracy r = np_trace q ap \<and>
    overall_accuracy_se r = fsqrt (overall_accuracy_variance em w (map (user_U_i ap) [0..<q]) q) \<and>
    overall_accuracy_ci_lower r = fsub (overall_accuracy r)
      (fmul (z_score_of norm_ppf cl) (overall_accuracy_se r)) \<and>
    overall_accuracy_ci_upper r = fadd (overall_accuracy r)
      (fmul (z_score_of norm_ppf cl) (overall_accuracy_se r)) \<and>
    overall_accuracy_ci_value r = fmul (z_score_of norm_ppf cl) (overall_accuracy_se r)"
proof (cases "q = 0")
  case True
  then have "ap = []" using assms by simp
  then show ?thesis
    using True
    by (simp add: calculate_accuracy_metrics_no_class np_trace_def overall_accuracy_variance_def
        np_sum_Nil)
next
  case False
  then have "0 < q" by simp
  show ?thesis
    by (simp add: calculate_accuracy_metrics_closed [OF assms \<open>0 < q\<close>] Let_def lists_of_def)
qed


section \<open>The overall-accuracy variance\<close>







lemma calculate_accuracy_metrics_fieldsD:
  assumes "calculate_accuracy_metrics ap em w norm_ppf cl = Inr r" and "length ap = q"
  shows "user_accuracy r = map (user_U_i ap) [0..<q]"
    and "user_accuracy_se r = map (user_se ap em) [0..<q]"
    and "producer_accuracy r = map (producer_P_j ap) [0..<q]"
    and "producer_accuracy_se r =
      map (producer_se ap em q (user_U_i ap (q - 1)) (np_sum (em ! (q - 1)))) [0..<q]"
    and "overall_accuracy r = np_trace q ap"
    and "overall_accuracy_se r = fsqrt (overall_accuracy_variance em w (map (user_U_i ap) [0..<q]) q)"
    and "overall_accuracy_ci_lower r = fsub (overall_accuracy r)
      (fmul (z_score_of norm_ppf cl) (overall_accuracy_se r))"
    and "overall_accuracy_ci_upper r = fadd (overall_accuracy r)
      (fmul (z_score_of norm_ppf cl) (overall_accuracy_se r))"
    and "overall_accuracy_ci_value r = fmul (z_score_of norm_ppf cl) (overall_accuracy_se r)"
  using calculate_accuracy_metrics_fields [OF assms(2), of em w norm_ppf cl] assms(1)
  by auto


lemma sqrt_sixtyfourth: "sqrt (1 / 64) = 1 / 8"
  by (rule real_sqrt_unique) (simp_all add: power2_eq_square)

section \<open>The producer's-accuracy variance\<close>


lemma variance_P_j_cong:
  assumes "\<forall>i<q. em ! i ! j = em' ! i ! j"
  shows "variance_P_j em q j d P U n = variance_P_j em' q j d P U n"
proof -
  have eq: "map (\<lambda>i. fdiv (fmul (fdiv (em ! i ! j) n) (fsub (Fin 1) (fdiv (em ! i ! j) n)))
                   (fsub n (Fin 1))) (filter (\<lambda>i. i \<noteq> j) [0..<q]) =
        map (\<lambda>i. fdiv (fmul (fdiv (em' ! i ! j) n) (fsub (Fin 1) (fdiv (em' ! i ! j) n)))
                   (fsub n (Fin 1))) (filter (\<lambda>i. i \<noteq> j) [0..<q])"
    using assms by (intro map_cong) simp_all
  show ?thesis
    unfolding variance_P_j_def by (simp only: eq)
qed

lemma column_nth: "i < length m \<Longrightarrow> column m j ! i = m ! i ! j"
  by (simp add: column_def)

lemma producer_se_nth:
  assumes "calculate_accuracy_metrics ap em w norm_ppf cl = Inr r" and "length ap = q" and "j < q"
  shows "producer_accuracy_se r ! j =
      producer_se ap em q (user_accuracy r ! (q - 1)) (np_sum (em ! (q - 1))) j"
    and "producer_accuracy r ! j = producer_P_j ap j"
    and "user_accuracy r ! (q - 1) = user_U_i ap (q - 1)"
  using calculate_accuracy_metrics_fieldsD(1,3,4) [OF assms(1,2)] assms(3)
  by simp_all

lemma sqrt_324th: "sqrt (1 / 324) = 1 / 18"
  by (rule real_sqrt_unique) (simp_all add: power2_eq_square)



lemmas eval_variance = variance_P_j_def producer_variance_spec_def producer_se_def producer_P_j_def
  user_U_i_def column_def np_sum_def fsq_def fsub_def upt_rec Let_def

section \<open>A class of weight zero\<close>






section \<open>Claims\<close>

subsection \<open>C8: the standard error of the error-adjusted areas\<close>

text \<open>
  C8. For class \<open>j\<close>, \<open>calculate_standard_error_and_ci\<close> returns the area standard error
  \<open>total_area * sqrt (\<Sum>i. weights[i]\<^sup>2 * (n_ij / n_i) * (1 - n_ij / n_i) / (n_i - 1))\<close>, where the
  sum ranges over the rows with \<open>n_i > 1\<close> only (first equation); a row with \<open>n_i \<le> 1\<close>, or
  with an undefined \<open>n_i\<close>, adds exactly zero to it and never an undefined value (second
  equation).
\<close>

theorem calculate_standard_error_and_ci_spec:
  assumes "square q error_matrix" and "length weights = q" and "j < q"
  shows "standard_errors (calculate_standard_error_and_ci error_matrix weights
            area_adjusted_estimates total_area norm_ppf confidence_level) ! j =
      fmul total_area
        (fsqrt (np_sum (map (\<lambda>i. fdiv (fmul (fmul (fsq (weights ! i))
                                              (fdiv (error_matrix ! i ! j) (np_sum (error_matrix ! i))))
                                        (fsub (Fin 1) (fdiv (error_matrix ! i ! j) (np_sum (error_matrix ! i)))))
                                  (fsub (np_sum (error_matrix ! i)) (Fin 1)))
                         (filter (\<lambda>i. fgt (np_sum (error_matrix ! i)) (Fin 1)) [0..<q]))))
    \<and> standard_errors (calculate_standard_error_and_ci error_matrix weights
            area_adjusted_estimates total_area norm_ppf confidence_level) ! j =
      fmul total_area
        (fsqrt (np_sum (map (\<lambda>i. if fgt (np_sum (error_matrix ! i)) (Fin 1)
                              then fdiv (fmul (fmul (fsq (weights ! i))
                                              (fdiv (error_matrix ! i ! j) (np_sum (error_matrix ! i))))
                                        (fsub (Fin 1) (fdiv (error_matrix ! i ! j) (np_sum (error_matrix ! i)))))
                                  (fsub (np_sum (error_matrix ! i)) (Fin 1))
                              else Fin 0)
                         [0..<q])))"
proof -
  have q: "length error_matrix = q"
    using assms(1) by (simp add: square_def)
  have "standard_errors (calculate_standard_error_and_ci error_matrix weights
            area_adjusted_estimates total_area norm_ppf confidence_level) ! j =
      fmul total_area (fsqrt (se_j_loop error_matrix weights j [0..<q] (Fin 0)))"
    using assms(3) by (simp add: calculate_standard_error_and_ci_def Let_def q)
  then show ?thesis
    by (simp only: se_j_loop_closed fadd_zero_left np_sum_filter_zero)
qed

text \<open>
  Two classes, the second with a single sample: its row is left out, and the standard
  error of the second class's area is \<open>100 * sqrt (1 / 16)\<close>.
\<close>

theorem calculate_standard_error_and_ci_spec_witness:
  "standard_errors (calculate_standard_error_and_ci [[Fin 1, Fin 1], [Fin 0, Fin 1]]
      [Fin (1 / 2), Fin (1 / 2)] [Fin 25, Fin 75] (Fin 100) (\<lambda>p. Fin 2) (Fin (95 / 100))) ! 1 =
   Fin 25"
  using calculate_standard_error_and_ci_spec [of 2 "[[Fin 1, Fin 1], [Fin 0, Fin 1]]"
      "[Fin (1 / 2), Fin (1 / 2)]" 1 "[Fin 25, Fin 75]" "Fin 100" "\<lambda>p. Fin 2" "Fin (95 / 100)"]
  by (simp add: square_def np_sum_def fsq_def fsub_def upt_rec sqrt_sixteenth)

subsection \<open>C3: the user's accuracy and the sample-count ratio\<close>




subsection \<open>C9: a class with a single sample\<close>



subsection \<open>C4: the overall accuracy and its variance\<close>

text \<open>
  C4. The overall accuracy returned by \<open>calculate_accuracy_metrics\<close> is the sum of the
  diagonal of the area-proportion matrix. Its standard error is the square root of
  \<open>\<Sum>i. weights[i]\<^sup>2 * U_i * (1 - U_i) / (n_i - 1)\<close>, with \<open>U_i\<close> the reported user's accuracy
  of class \<open>i\<close>, summed over the classes with \<open>n_i > 1\<close> only (second equation); the
  other classes are left out, which in the sum is the same as a zero in their place
  (third equation), whatever their own term would have been.
\<close>

theorem overall_accuracy_spec:
  assumes "square q area_proportion_matrix" and "square q error_matrix" and "length weights = q"
  shows "\<exists>r. calculate_accuracy_metrics area_proportion_matrix error_matrix weights
            norm_ppf confidence_level = Inr r \<and>
     overall_accuracy r = np_sum (map (\<lambda>i. area_proportion_matrix ! i ! i) [0..<q]) \<and>
     overall_accuracy_se r =
       fsqrt (np_sum (map (\<lambda>i. fdiv (fmul (fmul (fsq (weights ! i)) (user_accuracy r ! i))
                                       (fsub (Fin 1) (user_accuracy r ! i)))
                                 (fsub (np_sum (error_matrix ! i)) (Fin 1)))
                        (filter (\<lambda>i. fgt (np_sum (error_matrix ! i)) (Fin 1)) [0..<q]))) \<and>
     overall_accuracy_se r =
       fsqrt (np_sum (map (\<lambda>i. if fgt (np_sum (error_matrix ! i)) (Fin 1)
                             then fdiv (fmul (fmul (fsq (weights ! i)) (user_accuracy r ! i))
                                       (fsub (Fin 1) (user_accuracy r ! i)))
                                 (fsub (np_sum (error_matrix ! i)) (Fin 1))
                             else Fin 0)
                        [0..<q]))"
proof -
  have len: "length area_proportion_matrix = q"
    using assms(1) by (simp add: square_def)
  obtain res where res: "calculate_accuracy_metrics area_proportion_matrix error_matrix weights
        norm_ppf confidence_level = Inr res"
    and ua: "user_accuracy res = map (user_U_i area_proportion_matrix) [0..<q]"
    and oa: "overall_accuracy res = np_trace q area_proportion_matrix"
    and se: "overall_accuracy_se res =
      fsqrt (overall_accuracy_variance error_matrix weights (map (user_U_i area_proportion_matrix) [0..<q]) q)"
    using calculate_accuracy_metrics_fields [OF len, of error_matrix weights norm_ppf confidence_level]
    by blast
  have 1: "overall_accuracy res = np_sum (map (\<lambda>i. area_proportion_matrix ! i ! i) [0..<q])"
    by (simp add: oa np_trace_def)
  have 2: "overall_accuracy_se res =
       fsqrt (np_sum (map (\<lambda>i. fdiv (fmul (fmul (fsq (weights ! i)) (user_accuracy res ! i))
                                       (fsub (Fin 1) (user_accuracy res ! i)))
                                 (fsub (np_sum (error_matrix ! i)) (Fin 1)))
                        (filter (\<lambda>i. fgt (np_sum (error_matrix ! i)) (Fin 1)) [0..<q])))"
    unfolding se overall_accuracy_variance_def ua [symmetric] ..
  have 3: "overall_accuracy_se res =
       fsqrt (np_sum (map (\<lambda>i. if fgt (np_sum (error_matrix ! i)) (Fin 1)
                             then fdiv (fmul (fmul (fsq (weights ! i)) (user_accuracy res ! i))
                                       (fsub (Fin 1) (user_accuracy res ! i)))
                                 (fsub (np_sum (error_matrix ! i)) (Fin 1))
                             else Fin 0)
                        [0..<q]))"
    unfolding 2 np_sum_filter_zero ..
  from res 1 2 3 show ?thesis by blast
qed

text \<open>
  Two classes, the first with a single sample: the overall accuracy is \<open>1/2 + 3/8\<close>, and
  only the second class enters the variance, \<open>(1/2)\<^sup>2 * (3/4) * (1/4) / 3 = 1/64\<close>.
\<close>

theorem overall_accuracy_spec_witness:
  "\<exists>r. calculate_accuracy_metrics [[Fin (1 / 2), Fin 0], [Fin (1 / 8), Fin (3 / 8)]]
          [[Fin 1, Fin 0], [Fin 1, Fin 3]] [Fin (1 / 2), Fin (1 / 2)]
          (\<lambda>p. Fin 2) (Fin (95 / 100)) = Inr r \<and>
        overall_accuracy r = Fin (7 / 8) \<and>
        overall_accuracy_se r = Fin (1 / 8)"
proof -
  let ?ppf = "\<lambda>p::npfloat. Fin 2"
  let ?cl = "Fin (95 / 100)"
  let ?em = "[[Fin 1, Fin 0], [Fin 1, Fin 3]]"
  let ?w = "[Fin (1 / 2), Fin (1 / 2)]"
  let ?ap = "[[Fin (1 / 2), Fin 0], [Fin (1 / 8), Fin (3 / 8)]]"
  have sq: "square 2 ?ap" "square 2 ?em" "length ?w = 2"
    by (simp_all add: square_def)
  from overall_accuracy_spec [OF sq, of ?ppf ?cl]
  obtain r where r: "calculate_accuracy_metrics ?ap ?em ?w ?ppf ?cl = Inr r"
    and oa: "overall_accuracy r = np_sum (map (\<lambda>i. ?ap ! i ! i) [0..<2])"
    and se: "overall_accuracy_se r =
       fsqrt (np_sum (map (\<lambda>i. fdiv (fmul (fmul (fsq (?w ! i)) (user_accuracy r ! i))
                                       (fsub (Fin 1) (user_accuracy r ! i)))
                                 (fsub (np_sum (?em ! i)) (Fin 1)))
                        (filter (\<lambda>i. fgt (np_sum (?em ! i)) (Fin 1)) [0..<2])))"
    by blast
  have u: "user_accuracy r = [Fin 1, Fin (3 / 4)]"
    using calculate_accuracy_metrics_fieldsD(1) [OF r, of 2]
    by (simp add: user_U_i_def np_sum_def upt_rec)
  have "overall_accuracy r = Fin (7 / 8)"
    by (simp add: oa np_sum_def upt_rec)
  moreover have "overall_accuracy_se r = Fin (1 / 8)"
    by (simp add: se u np_sum_def upt_rec fsq_def fsub_def sqrt_sixtyfourth)
  ultimately show ?thesis
    using r by blast
qed

subsection \<open>C2: an undefined user's accuracy in the overall variance\<close>




subsection \<open>C1: the producer's-accuracy variance and the spec's formula\<close>




subsection \<open>C10: every row total in the producer's-accuracy variance is the last row's\<close>

text \<open>
  C10. For every class \<open>j\<close> with column sum above 1, the standard error of the producer's
  accuracy is the square root of the variance expression in which every row sample size,
  in the first term and in the two denominators inside the sum over \<open>i \<noteq> j\<close>, is the
  total of the last row \<open>q - 1\<close>, with \<open>U\<close> the reported user's accuracy of the last class.
  The totals of the contributing rows do not enter: for the same area-proportion matrix,
  any error matrix with the same column \<open>j\<close> and the same last row gives the same standard
  error.
\<close>

theorem producer_variance_row_totals:
  assumes "square q area_proportion_matrix" and "square q error_matrix" and "length weights = q"
    and "j < q" and "fgt (np_sum (column error_matrix j)) (Fin 1)"
  shows "\<exists>r. calculate_accuracy_metrics area_proportion_matrix error_matrix weights
            norm_ppf confidence_level = Inr r \<and>
     producer_accuracy_se r ! j =
       (let n_dot_j = np_sum (column error_matrix j);
            P_j = producer_accuracy r ! j;
            U = user_accuracy r ! (q - 1);
            n = np_sum (error_matrix ! (q - 1))
        in fsqrt (fmul (fdiv (Fin 1) (fsq n_dot_j))
             (fadd
                (fdiv (fmul (fmul (fmul (fsq n_dot_j) (fsq (fsub (Fin 1) P_j))) U) (fsub (Fin 1) U))
                   (fsub n (Fin 1)))
                (fmul (fsq P_j)
                   (np_sum (map (\<lambda>i. fdiv (fmul (fdiv (error_matrix ! i ! j) n)
                                             (fsub (Fin 1) (fdiv (error_matrix ! i ! j) n)))
                                       (fsub n (Fin 1)))
                              (filter (\<lambda>i. i \<noteq> j) [0..<q]))))))) \<and>
     (\<forall>em'. square q em' \<and> column em' j = column error_matrix j \<and>
            em' ! (q - 1) = error_matrix ! (q - 1) \<longrightarrow>
        (\<exists>r'. calculate_accuracy_metrics area_proportion_matrix em' weights
                 norm_ppf confidence_level = Inr r' \<and>
              producer_accuracy_se r' ! j = producer_accuracy_se r ! j))"
proof -
  have len: "length area_proportion_matrix = q"
    using assms(1) by (simp add: square_def)
  have lem: "length error_matrix = q"
    using assms(2) by (simp add: square_def)
  obtain res where res: "calculate_accuracy_metrics area_proportion_matrix error_matrix weights
        norm_ppf confidence_level = Inr res"
    using calculate_accuracy_metrics_fields [OF len, of error_matrix weights norm_ppf confidence_level]
    by blast
  note f = producer_se_nth [OF res len assms(4)]
  have "producer_accuracy_se res ! j =
       fsqrt (variance_P_j error_matrix q j (np_sum (column error_matrix j))
                (producer_accuracy res ! j) (user_accuracy res ! (q - 1))
                (np_sum (error_matrix ! (q - 1))))"
    unfolding f(1) f(2) producer_se_def using assms(5) by simp
  then have se: "producer_accuracy_se res ! j =
       (let n_dot_j = np_sum (column error_matrix j);
            P_j = producer_accuracy res ! j;
            U = user_accuracy res ! (q - 1);
            n = np_sum (error_matrix ! (q - 1))
        in fsqrt (fmul (fdiv (Fin 1) (fsq n_dot_j))
             (fadd
                (fdiv (fmul (fmul (fmul (fsq n_dot_j) (fsq (fsub (Fin 1) P_j))) U) (fsub (Fin 1) U))
                   (fsub n (Fin 1)))
                (fmul (fsq P_j)
                   (np_sum (map (\<lambda>i. fdiv (fmul (fdiv (error_matrix ! i ! j) n)
                                             (fsub (Fin 1) (fdiv (error_matrix ! i ! j) n)))
                                       (fsub n (Fin 1)))
                              (filter (\<lambda>i. i \<noteq> j) [0..<q])))))))"
    unfolding variance_P_j_def Let_def .
  have other: "\<exists>r'. calculate_accuracy_metrics area_proportion_matrix em' weights
                 norm_ppf confidence_level = Inr r' \<and>
              producer_accuracy_se r' ! j = producer_accuracy_se res ! j"
    if sq: "square q em'" and col: "column em' j = column error_matrix j"
      and last: "em' ! (q - 1) = error_matrix ! (q - 1)" for em'
  proof -
    have lem': "length em' = q"
      using sq by (simp add: square_def)
    obtain res' where res': "calculate_accuracy_metrics area_proportion_matrix em' weights
        norm_ppf confidence_level = Inr res'"
      using calculate_accuracy_metrics_fields [OF len, of em' weights norm_ppf confidence_level]
      by blast
    note f' = producer_se_nth [OF res' len assms(4)]
    have cells: "\<forall>i<q. em' ! i ! j = error_matrix ! i ! j"
    proof (intro allI impI)
      fix i assume "i < q"
      then have "column em' j ! i = em' ! i ! j" "column error_matrix j ! i = error_matrix ! i ! j"
        using lem lem' by (simp_all add: column_nth)
      then show "em' ! i ! j = error_matrix ! i ! j"
        using col by simp
    qed
    have "producer_accuracy_se res' ! j = producer_accuracy_se res ! j"
      unfolding f(1) f'(1) f(3) f'(3) producer_se_def col last
      using variance_P_j_cong [OF cells] by simp
    with res' show ?thesis by blast
  qed
  from res se other show ?thesis by blast
qed

text \<open>
  Raising the first row's total from 2 to 6 (its first cell from 1 to 5) leaves the
  second class's standard error at \<open>1/18\<close>.
\<close>

theorem producer_variance_row_totals_witness:
  "\<exists>r. calculate_accuracy_metrics [[Fin (1 / 4), Fin (1 / 4)], [Fin 0, Fin (1 / 2)]]
          [[Fin 1, Fin 1], [Fin 0, Fin 3]] [Fin (1 / 2), Fin (1 / 2)]
          (\<lambda>p. Fin 2) (Fin (95 / 100)) = Inr r \<and>
        producer_accuracy_se r ! 1 = Fin (1 / 18) \<and>
        (\<exists>r'. calculate_accuracy_metrics [[Fin (1 / 4), Fin (1 / 4)], [Fin 0, Fin (1 / 2)]]
          [[Fin 5, Fin 1], [Fin 0, Fin 3]] [Fin (1 / 2), Fin (1 / 2)]
          (\<lambda>p. Fin 2) (Fin (95 / 100)) = Inr r' \<and>
          producer_accuracy_se r' ! 1 = Fin (1 / 18))"
proof -
  let ?em = "[[Fin 1, Fin 1], [Fin 0, Fin 3]]"
  let ?em' = "[[Fin 5, Fin 1], [Fin 0, Fin 3]]"
  let ?w = "[Fin (1 / 2), Fin (1 / 2)]"
  let ?ap = "[[Fin (1 / 4), Fin (1 / 4)], [Fin 0, Fin (1 / 2)]]"
  let ?ppf = "\<lambda>p::npfloat. Fin 2"
  let ?cl = "Fin (95 / 100)"
  have h: "square 2 ?ap" "square 2 ?em" "length ?w = 2" "(1::nat) < 2"
    "fgt (np_sum (column ?em 1)) (Fin 1)"
    by (simp_all add: square_def column_def np_sum_def)
  from producer_variance_row_totals [OF h, of ?ppf ?cl]
  obtain r where r: "calculate_accuracy_metrics ?ap ?em ?w ?ppf ?cl = Inr r"
    and se: "producer_accuracy_se r ! 1 =
       (let n_dot_j = np_sum (column ?em 1);
            P_j = producer_accuracy r ! 1;
            U = user_accuracy r ! (2 - 1);
            n = np_sum (?em ! (2 - 1))
        in fsqrt (fmul (fdiv (Fin 1) (fsq n_dot_j))
             (fadd
                (fdiv (fmul (fmul (fmul (fsq n_dot_j) (fsq (fsub (Fin 1) P_j))) U) (fsub (Fin 1) U))
                   (fsub n (Fin 1)))
                (fmul (fsq P_j)
                   (np_sum (map (\<lambda>i. fdiv (fmul (fdiv (?em ! i ! 1) n)
                                             (fsub (Fin 1) (fdiv (?em ! i ! 1) n)))
                                       (fsub n (Fin 1)))
                              (filter (\<lambda>i. i \<noteq> 1) [0..<2])))))))"
    and other: "\<forall>em'. square 2 em' \<and> column em' 1 = column ?em 1 \<and>
            em' ! (2 - 1) = ?em ! (2 - 1) \<longrightarrow>
        (\<exists>r'. calculate_accuracy_metrics ?ap em' ?w ?ppf ?cl = Inr r' \<and>
              producer_accuracy_se r' ! 1 = producer_accuracy_se r ! 1)"
    by blast
  have P: "producer_accuracy r ! 1 = Fin (2 / 3)" and U: "user_accuracy r ! (2 - 1) = Fin 1"
    using producer_se_nth(2,3) [OF r, of 2 1]
    by (simp_all add: producer_P_j_def user_U_i_def column_def np_sum_def)
  have val: "producer_accuracy_se r ! 1 = Fin (1 / 18)"
    unfolding se P U by (simp add: eval_variance sqrt_324th)
  have "square 2 ?em' \<and> column ?em' 1 = column ?em 1 \<and> ?em' ! (2 - 1) = ?em ! (2 - 1)"
    by (simp add: square_def column_def)
  with other have "\<exists>r'. calculate_accuracy_metrics ?ap ?em' ?w ?ppf ?cl = Inr r' \<and>
              producer_accuracy_se r' ! 1 = producer_accuracy_se r ! 1"
    by blast
  with r val show ?thesis
    by simp
qed

end
